theory Spec2Isabelle
  imports Main
begin

section \<open>Data model\<close>

text \<open>
  The tracker stores projects and milestones in two tables (SQLAlchemy models
  \<open>Project\<close> and \<open>Milestone\<close>). A \<open>datetime.date\<close> is modelled by its proleptic ordinal
  (\<open>date.toordinal()\<close>): the code only compares dates, and the comparison of dates is the
  comparison of their ordinals. A status is the stored string, as in the source, so that
  unrecognised values stay expressible.
\<close>

type_synonym date = int

record milestone =
  m_id :: nat
  m_project_id :: nat
  milestone_name :: string
  m_start_date :: date
  m_end_date :: date
  m_status :: string
  m_priority :: string

record project =
  p_id :: nat
  project_name :: string
  client_name :: string
  p_start_date :: date
  p_end_date :: date
  p_status :: string

section \<open>Milestone status derivation\<close>

text \<open>
  \<open>get_milestone_status(milestone, today)\<close>. Every caller in the source passes \<open>today\<close>
  (read once from the clock by the route), so the reference date is a parameter.
\<close>

definition get_milestone_status :: "milestone \<Rightarrow> date \<Rightarrow> string" where
  "get_milestone_status milestone today =
     (if m_status milestone = ''Completed'' then ''Completed''
      else if m_status milestone = ''In Progress'' then
        (if m_end_date milestone < today then ''Overdue'' else ''In Progress'')
      else if today < m_start_date milestone then ''Not Started''
      else if today > m_end_date milestone then ''Overdue''
      else ''In Progress'')"

text \<open>
  The three-rule reference definition, written after the specification's wording, over
  the tuple \<open>(stored_status, start_date, end_date, today)\<close>.
\<close>

definition spec_milestone_status :: "string \<Rightarrow> date \<Rightarrow> date \<Rightarrow> date \<Rightarrow> string" where
  "spec_milestone_status stored_status start_date end_date today =
     (if stored_status = ''Completed'' then ''Completed''
      else if stored_status = ''In Progress'' then
        (if today > end_date then ''Overdue'' else ''In Progress'')
      else
        (if today < start_date then ''Not Started''
         else if today > end_date then ''Overdue''
         else ''In Progress''))"


section \<open>Text normalisation\<close>

text \<open>
  \<open>to_title_case(text)\<close> returns \<open>text.strip().title()\<close> for a non-empty text. The two string
  methods are modelled on ASCII text only: \<open>strip\<close> removes the leading and trailing
  characters that \<open>str.isspace\<close> accepts among the ASCII characters, \<open>title\<close> upper-cases an
  ASCII letter that follows an uncased character and lower-cases one that follows a cased
  character. Python consults the Unicode tables for the other characters (the spaces
  U+0085 and U+00A0, the letters beyond ASCII); a name that contains one is outside this
  model, and the properties below never depend on what a name is normalised to.
\<close>

definition is_space :: "char \<Rightarrow> bool" where
  "is_space c = (let n = (of_char c :: nat) in (9 \<le> n \<and> n \<le> 13) \<or> (28 \<le> n \<and> n \<le> 32))"

definition is_upper :: "char \<Rightarrow> bool" where
  "is_upper c = (let n = (of_char c :: nat) in 65 \<le> n \<and> n \<le> 90)"

definition is_lower :: "char \<Rightarrow> bool" where
  "is_lower c = (let n = (of_char c :: nat) in 97 \<le> n \<and> n \<le> 122)"

definition to_upper :: "char \<Rightarrow> char" where
  "to_upper c = (if is_lower c then char_of ((of_char c :: nat) - 32) else c)"

definition to_lower :: "char \<Rightarrow> char" where
  "to_lower c = (if is_upper c then char_of ((of_char c :: nat) + 32) else c)"

definition strip :: "string \<Rightarrow> string" where
  "strip text = rev (dropWhile is_space (rev (dropWhile is_space text)))"

fun title_from :: "bool \<Rightarrow> string \<Rightarrow> string" where
  "title_from previous_is_cased [] = []"
| "title_from previous_is_cased (c # cs) =
     (if previous_is_cased then to_lower c else to_upper c)
       # title_from (is_upper c \<or> is_lower c) cs"

definition title :: "string \<Rightarrow> string" where
  "title text = title_from False text"

definition to_title_case :: "string \<Rightarrow> string" where
  "to_title_case text = (if text \<noteq> [] then title (strip text) else text)"

section \<open>Binary floating point of the percentage\<close>

text \<open>
  Python's \<open>/\<close> on two integers and \<open>*\<close> on a float are IEEE 754 binary64 operations: the
  exact result rounded to the nearest value with a 53-bit mantissa, ties to the even
  mantissa. The percentages only meet non-negative values in the normal range, so a float
  is modelled as a pair \<open>(m, e)\<close> standing for \<open>m * 2 ^ e\<close>, and overflow, subnormal values
  and signs are left out.
\<close>

type_synonym float = "nat \<times> int"

fun bit_length :: "nat \<Rightarrow> nat" where
  "bit_length n = (if n = 0 then 0 else Suc (bit_length (n div 2)))"

declare bit_length.simps [simp del]

text \<open>\<open>a / b\<close> rounded to the nearest natural number, ties to the even one.\<close>

definition round_half_even :: "nat \<Rightarrow> nat \<Rightarrow> nat" where
  "round_half_even a b =
     (let q = a div b; r = a mod b
      in if 2 * r < b then q
         else if 2 * r > b then q + 1
         else if even q then q else q + 1)"

text \<open>
  The binary64 value nearest to the positive rational \<open>a / b\<close>: \<open>e\<close> is the exponent of the
  leading bit of the quotient, and the quotient scaled into \<open>[2 ^ 52, 2 ^ 53)\<close> is rounded
  to an integer mantissa.
\<close>

definition float_of_ratio :: "nat \<Rightarrow> nat \<Rightarrow> float" where
  "float_of_ratio a b =
     (if a = 0 then (0, 0)
      else
        let d = int (bit_length a) - int (bit_length b);
            e = (if (if 0 \<le> d then b * 2 ^ nat d \<le> a else b \<le> a * 2 ^ nat (- d))
                 then d else d - 1);
            k = 52 - e
        in ((if 0 \<le> k then round_half_even (a * 2 ^ nat k) b
             else round_half_even a (b * 2 ^ nat (- k))), - k))"

definition true_div :: "nat \<Rightarrow> nat \<Rightarrow> float" where
  "true_div a b = float_of_ratio a b"

definition float_mul_nat :: "float \<Rightarrow> nat \<Rightarrow> float" where
  "float_mul_nat x k =
     (case x of (m, e) \<Rightarrow>
        if 0 \<le> e then float_of_ratio (m * k * 2 ^ nat e) 1
        else float_of_ratio (m * k) (2 ^ nat (- e)))"

text \<open>\<open>int(x)\<close> truncates; \<open>round(x)\<close> is the nearest integer, ties to even.\<close>

definition int_of_float :: "float \<Rightarrow> nat" where
  "int_of_float x =
     (case x of (m, e) \<Rightarrow> if 0 \<le> e then m * 2 ^ nat e else m div 2 ^ nat (- e))"

definition round_of_float :: "float \<Rightarrow> nat" where
  "round_of_float x =
     (case x of (m, e) \<Rightarrow>
        if 0 \<le> e then m * 2 ^ nat e else round_half_even m (2 ^ nat (- e)))"

section \<open>The record store and the unit of work\<close>

text \<open>
  The two tables are lists of rows; the primary key of a row is its \<open>id\<close> field. A request
  works on the objects of its own SQLAlchemy session: an assignment to an attribute
  changes the session's copy, \<open>db.session.commit()\<close> writes the session's state to the
  database, and the session is discarded when the request ends, together with whatever
  was assigned and not committed. A session is therefore the pair of the committed
  database and the working copy; what is stored after a request is \<open>committed\<close>.
\<close>

record db =
  projects :: "project list"
  milestones :: "milestone list"

record session =
  committed :: db
  working :: db

definition begin_request :: "db \<Rightarrow> session" where
  "begin_request d = \<lparr>committed = d, working = d\<rparr>"

definition commit :: "session \<Rightarrow> session" where
  "commit s = s\<lparr>committed := working s\<rparr>"

definition get_project :: "db \<Rightarrow> nat \<Rightarrow> project option" where
  "get_project d project_id = find (\<lambda>p. p_id p = project_id) (projects d)"

definition get_milestone :: "db \<Rightarrow> nat \<Rightarrow> milestone option" where
  "get_milestone d milestone_id = find (\<lambda>m. m_id m = milestone_id) (milestones d)"

text \<open>An attribute assignment on a loaded object: the row with the object's key is replaced.\<close>

definition put_project :: "project \<Rightarrow> db \<Rightarrow> db" where
  "put_project p d = d\<lparr>projects := map (\<lambda>q. if p_id q = p_id p then p else q) (projects d)\<rparr>"

definition put_milestone :: "milestone \<Rightarrow> db \<Rightarrow> db" where
  "put_milestone m d =
     d\<lparr>milestones := map (\<lambda>q. if m_id q = m_id m then m else q) (milestones d)\<rparr>"

definition set_project :: "project \<Rightarrow> session \<Rightarrow> session" where
  "set_project p s = s\<lparr>working := put_project p (working s)\<rparr>"

definition set_milestone :: "milestone \<Rightarrow> session \<Rightarrow> session" where
  "set_milestone m s = s\<lparr>working := put_milestone m (working s)\<rparr>"

text \<open>The relationship \<open>project.milestones\<close>.\<close>

definition project_milestones :: "db \<Rightarrow> project \<Rightarrow> milestone list" where
  "project_milestones d p = filter (\<lambda>m. m_project_id m = p_id p) (milestones d)"

text \<open>The key the database gives a new row: one more than the largest key in the table.\<close>

definition fresh_id :: "nat list \<Rightarrow> nat" where
  "fresh_id ids = Suc (fold max ids 0)"

section \<open>Completion percentage\<close>

text \<open>
  \<open>calculate_completion_percentage(project)\<close> (and the property
  \<open>Project.completion_percentage\<close>, which has the same body):
  \<open>int((completed / len(project.milestones)) * 100)\<close>.
\<close>

definition calculate_completion_percentage :: "db \<Rightarrow> project \<Rightarrow> nat" where
  "calculate_completion_percentage d project =
     (let ms = project_milestones d project
      in if ms = [] then 0
         else
           let completed = length (filter (\<lambda>m. m_status m = ''Completed'') ms)
           in int_of_float (float_mul_nat (true_div completed (length ms)) 100))"

text \<open>
  The percentage of \<open>view_project\<close>:
  \<open>round((completed_milestones_count / total_milestones) * 100)\<close>, and 0 without milestones.
\<close>

definition view_completion_percentage :: "nat \<Rightarrow> nat \<Rightarrow> nat" where
  "view_completion_percentage completed_milestones_count total_milestones =
     (if total_milestones > 0
      then round_of_float (float_mul_nat (true_div completed_milestones_count total_milestones) 100)
      else 0)"

section \<open>Requests and responses\<close>

text \<open>
  A date field of a form is the result of \<open>datetime.strptime\<close> on the submitted text:
  \<open>None\<close> stands for a text that does not parse, on which the route raises and the
  request ends in a server error. The messages are the ones the routes render into
  their form.
\<close>

datatype http_method = GET | POST

datatype message =
    Milestone_start_before_project_start
  | Milestone_end_after_project_end
  | Milestone_start_after_end
  | Start_after_end
  | End_before_start

datatype response =
    Redirect_dashboard
  | Redirect_view_project nat
  | Render_form "message option"
  | Render_dashboard nat nat nat nat nat
  | Render_project nat nat nat
  | Abort_404
  | Abort_500

record project_form =
  f_project_name :: string
  f_client_name :: string
  f_start_date :: "date option"
  f_end_date :: "date option"

record milestone_form =
  f_milestonename :: string
  f_startdate :: "date option"
  f_enddate :: "date option"
  f_status :: string
  f_priority :: "string option"

section \<open>Project status\<close>

text \<open>The date rule both \<open>dashboard\<close> and \<open>toggle_status\<close> apply to a project.\<close>

definition update_status_by_date :: "date \<Rightarrow> project \<Rightarrow> project" where
  "update_status_by_date today project =
     (if p_end_date project < today then project\<lparr>p_status := ''Overdue''\<rparr>
      else if p_start_date project \<le> today then project\<lparr>p_status := ''In Progress''\<rparr>
      else project\<lparr>p_status := ''Not Started''\<rparr>)"

text \<open>The first loop of \<open>dashboard\<close>, on one project.\<close>

definition dashboard_update :: "date \<Rightarrow> project \<Rightarrow> project" where
  "dashboard_update today project =
     (if p_status project \<noteq> ''Completed'' then update_status_by_date today project
      else project)"

text \<open>
  The inner loop of the second pass of \<open>dashboard\<close>: count the milestone, then mark it
  Overdue when its end date has passed and it is not Completed.
\<close>

fun dashboard_milestones ::
  "date \<Rightarrow> milestone list \<Rightarrow> nat \<times> nat \<times> session \<Rightarrow> nat \<times> nat \<times> session" where
  "dashboard_milestones today [] acc = acc"
| "dashboard_milestones today (milestone # rest) (completed_milestones, pending_milestones, s) =
     (let completed_milestones' =
            (if m_status milestone = ''Completed'' then completed_milestones + 1
             else completed_milestones);
          pending_milestones' =
            (if m_status milestone = ''Completed'' then pending_milestones
             else pending_milestones + 1);
          s' = (if m_end_date milestone < today \<and> m_status milestone \<noteq> ''Completed''
                then set_milestone (milestone\<lparr>m_status := ''Overdue''\<rparr>) s else s)
      in dashboard_milestones today rest (completed_milestones', pending_milestones', s'))"

fun dashboard_projects ::
  "date \<Rightarrow> project list \<Rightarrow> nat \<times> nat \<times> nat \<times> nat \<times> session
     \<Rightarrow> nat \<times> nat \<times> nat \<times> nat \<times> session" where
  "dashboard_projects today [] acc = acc"
| "dashboard_projects today (project # rest)
       (active_projects, overdue_count, completed_milestones, pending_milestones, s) =
     (let active_projects' =
            (if p_status project \<noteq> ''Completed'' then active_projects + 1 else active_projects);
          overdue_count' =
            (if p_status project = ''Overdue'' then overdue_count + 1 else overdue_count)
      in case dashboard_milestones today (project_milestones (working s) project)
                (completed_milestones, pending_milestones, s) of
           (completed_milestones', pending_milestones', s') \<Rightarrow>
             dashboard_projects today rest
               (active_projects', overdue_count', completed_milestones', pending_milestones',
                commit s'))"

definition dashboard :: "date \<Rightarrow> db \<Rightarrow> response \<times> session" where
  "dashboard today d =
     (let s = begin_request d;
          total_projects = length (projects (working s));
          s = s\<lparr>working := (working s)\<lparr>projects := map (dashboard_update today) (projects (working s))\<rparr>\<rparr>;
          s = commit s
      in case dashboard_projects today (projects (working s)) (0, 0, 0, 0, s) of
           (active_projects, overdue_count, completed_milestones, pending_milestones, s') \<Rightarrow>
             (Render_dashboard total_projects active_projects completed_milestones
                pending_milestones overdue_count, s'))"

text \<open>The loop of \<open>toggle_status\<close> over the milestones, leaving at the first one not Completed.\<close>

fun all_completed :: "milestone list \<Rightarrow> date \<Rightarrow> bool" where
  "all_completed [] today = True"
| "all_completed (milestone # rest) today =
     (if get_milestone_status milestone today \<noteq> ''Completed'' then False
      else all_completed rest today)"

definition toggle_status :: "nat \<Rightarrow> date \<Rightarrow> db \<Rightarrow> response \<times> session" where
  "toggle_status project_id today d =
     (let s = begin_request d
      in case get_project (working s) project_id of
           None \<Rightarrow> (Abort_404, s)
         | Some project \<Rightarrow>
             if p_status project = ''Completed'' then
               let project = project\<lparr>p_status := ''Not Completed''\<rparr>;
                   project = update_status_by_date today project
               in (Redirect_view_project (p_id project), commit (set_project project s))
             else if all_completed (project_milestones (working s) project) today then
               let project = project\<lparr>p_status := ''Completed''\<rparr>
               in (Redirect_view_project (p_id project), commit (set_project project s))
             else (Redirect_view_project (p_id project), commit s))"

section \<open>Project detail\<close>

fun view_project_milestones :: "date \<Rightarrow> milestone list \<Rightarrow> nat \<times> session \<Rightarrow> nat \<times> session" where
  "view_project_milestones today [] acc = acc"
| "view_project_milestones today (milestone # rest) (completed_milestones_count, s) =
     (let actual_status = get_milestone_status milestone today;
          s' = (if m_status milestone \<noteq> actual_status
                then set_milestone (milestone\<lparr>m_status := actual_status\<rparr>) s else s);
          completed_milestones_count' =
            (if actual_status = ''Completed'' then completed_milestones_count + 1
             else completed_milestones_count)
      in view_project_milestones today rest (completed_milestones_count', s'))"

definition view_project :: "nat \<Rightarrow> date \<Rightarrow> db \<Rightarrow> response \<times> session" where
  "view_project project_id today d =
     (let s = begin_request d
      in case get_project (working s) project_id of
           None \<Rightarrow> (Abort_404, s)
         | Some project \<Rightarrow>
             let total_milestones = length (project_milestones (working s) project)
             in case view_project_milestones today (project_milestones (working s) project) (0, s) of
                  (completed_milestones_count, s') \<Rightarrow>
                    (Render_project completed_milestones_count total_milestones
                       (view_completion_percentage completed_milestones_count total_milestones),
                     commit s'))"

section \<open>Creating and editing\<close>

text \<open>
  When the submitted project name is already taken, \<open>add_project\<close> and \<open>edit_project\<close>
  call \<open>flash(...)\<close> before they render anything. \<open>flash\<close> writes to the signed session
  cookie and the application sets no secret key, so the call raises \<open>RuntimeError\<close>: the
  request ends in a server error, and nothing has been committed.
\<close>

definition add_project :: "http_method \<Rightarrow> project_form \<Rightarrow> db \<Rightarrow> response \<times> session" where
  "add_project method form d =
     (let s = begin_request d
      in if method = POST then
           let name = to_title_case (f_project_name form);
               client = to_title_case (f_client_name form)
           in case f_start_date form of
                None \<Rightarrow> (Abort_500, s)
              | Some start_date \<Rightarrow>
                 (case f_end_date form of
                    None \<Rightarrow> (Abort_500, s)
                  | Some end_date \<Rightarrow>
                     (case find (\<lambda>p. project_name p = name) (projects (working s)) of
                        Some existing_project \<Rightarrow> (Abort_500, s)
                      | None \<Rightarrow>
                          let new_project =
                                \<lparr>p_id = fresh_id (map p_id (projects (working s))),
                                 project_name = name, client_name = client,
                                 p_start_date = start_date, p_end_date = end_date,
                                 p_status = ''Not Completed''\<rparr>;
                              s = s\<lparr>working := (working s)\<lparr>projects := projects (working s) @ [new_project]\<rparr>\<rparr>
                          in (Redirect_dashboard, commit s)))
         else (Render_form None, s))"

definition add_milestone ::
  "nat \<Rightarrow> http_method \<Rightarrow> milestone_form \<Rightarrow> db \<Rightarrow> response \<times> session" where
  "add_milestone project_id method form d =
     (let s = begin_request d
      in case get_project (working s) project_id of
           None \<Rightarrow> (Abort_404, s)
         | Some project \<Rightarrow>
             if method = POST then
               let name = to_title_case (f_milestonename form)
               in case f_startdate form of
                    None \<Rightarrow> (Abort_500, s)
                  | Some start_date \<Rightarrow>
                     (case f_enddate form of
                        None \<Rightarrow> (Abort_500, s)
                      | Some end_date \<Rightarrow>
                          let status = f_status form;
                              priority = (case f_priority form of None \<Rightarrow> ''Medium'' | Some p \<Rightarrow> p)
                          in if start_date < p_start_date project then
                               (Render_form (Some Milestone_start_before_project_start), s)
                             else if end_date > p_end_date project then
                               (Render_form (Some Milestone_end_after_project_end), s)
                             else if start_date > end_date then
                               (Render_form (Some Milestone_start_after_end), s)
                             else
                               let new_milestone =
                                     \<lparr>m_id = fresh_id (map m_id (milestones (working s))),
                                      m_project_id = project_id, milestone_name = name,
                                      m_start_date = start_date, m_end_date = end_date,
                                      m_status = status, m_priority = priority\<rparr>;
                                   s = s\<lparr>working := (working s)\<lparr>milestones := milestones (working s) @ [new_milestone]\<rparr>\<rparr>
                               in (Redirect_view_project project_id, commit s))
             else (Render_form None, s))"

text \<open>
  \<open>edit_milestone\<close> assigns the name and the priority to the loaded milestone before it
  validates the dates, and returns from a failed validation without a commit.
\<close>

definition edit_milestone ::
  "nat \<Rightarrow> http_method \<Rightarrow> milestone_form \<Rightarrow> db \<Rightarrow> response \<times> session" where
  "edit_milestone milestone_id method form d =
     (let s = begin_request d
      in case get_milestone (working s) milestone_id of
           None \<Rightarrow> (Abort_404, s)
         | Some milestone \<Rightarrow>
            (let project_id = m_project_id milestone
             in case get_project (working s) project_id of
                  None \<Rightarrow> (Abort_404, s)
                | Some project \<Rightarrow>
                    if method = POST then
                      let old_status = m_status milestone;
                          milestone = milestone\<lparr>milestone_name := to_title_case (f_milestonename form)\<rparr>;
                          s = set_milestone milestone s
                      in case f_startdate form of
                           None \<Rightarrow> (Abort_500, s)
                         | Some start_date \<Rightarrow>
                            (case f_enddate form of
                               None \<Rightarrow> (Abort_500, s)
                             | Some end_date \<Rightarrow>
                                 let new_status = f_status form;
                                     milestone = milestone\<lparr>m_priority :=
                                       (case f_priority form of None \<Rightarrow> ''Medium'' | Some p \<Rightarrow> p)\<rparr>;
                                     s = set_milestone milestone s
                                 in if start_date < p_start_date project then
                                      (Render_form (Some Milestone_start_before_project_start), s)
                                    else if end_date > p_end_date project then
                                      (Render_form (Some Milestone_end_after_project_end), s)
                                    else if start_date > end_date then
                                      (Render_form (Some Milestone_start_after_end), s)
                                    else
                                      let milestone = milestone\<lparr>m_start_date := start_date,
                                            m_end_date := end_date, m_status := new_status\<rparr>;
                                          s = commit (set_milestone milestone s)
                                      in if old_status = ''Completed'' \<and> new_status \<noteq> ''Completed'' then
                                           let project = project\<lparr>p_status := ''Not Completed''\<rparr>
                                           in (Redirect_view_project project_id,
                                               commit (set_project project s))
                                         else (Redirect_view_project project_id, s))
                    else (Render_form None, s)))"

text \<open>
  \<open>edit_project\<close> checks the new name first, assigns the names to the loaded project,
  parses the dates and checks their order before it assigns them and commits.
\<close>

definition edit_project ::
  "nat \<Rightarrow> http_method \<Rightarrow> project_form \<Rightarrow> db \<Rightarrow> response \<times> session" where
  "edit_project project_id method form d =
     (let s = begin_request d
      in case get_project (working s) project_id of
           None \<Rightarrow> (Abort_404, s)
         | Some project \<Rightarrow>
             if method = POST then
               let new_project_name = to_title_case (f_project_name form);
                   new_client_name = to_title_case (f_client_name form)
               in if new_project_name \<noteq> project_name project
                     \<and> find (\<lambda>p. project_name p = new_project_name) (projects (working s)) \<noteq> None
                  then (Abort_500, s)
                  else
                    let project = project\<lparr>project_name := new_project_name,
                          client_name := new_client_name\<rparr>;
                        s = set_project project s
                    in case f_start_date form of
                         None \<Rightarrow> (Abort_500, s)
                       | Some start_date \<Rightarrow>
                          (case f_end_date form of
                             None \<Rightarrow> (Abort_500, s)
                           | Some end_date \<Rightarrow>
                               if start_date > end_date then (Render_form (Some Start_after_end), s)
                               else if end_date < start_date then
                                 (Render_form (Some End_before_start), s)
                               else
                                 let project = project\<lparr>p_start_date := start_date,
                                       p_end_date := end_date\<rparr>
                                 in (Redirect_view_project (p_id project),
                                     commit (set_project project s)))
             else (Render_form None, s))"

text \<open>What the database holds once the request is over.\<close>

definition stored_after :: "response \<times> session \<Rightarrow> db" where
  "stored_after r = committed (snd r)"

section \<open>Reference rules of the specification\<close>

text \<open>
  The automatic project rule in the specification's words: Overdue if \<open>today > end_date\<close>,
  else In Progress if \<open>start_date \<le> today\<close>, else Not Started.
\<close>

definition spec_project_status :: "date \<Rightarrow> date \<Rightarrow> date \<Rightarrow> string" where
  "spec_project_status start_date end_date today =
     (if today > end_date then ''Overdue''
      else if start_date \<le> today then ''In Progress''
      else ''Not Started'')"

text \<open>
  The write-time validation of a milestone in the specification's words: three checks in a
  fixed order, the first failing one giving the error.
\<close>

definition spec_milestone_validation :: "date \<Rightarrow> date \<Rightarrow> date \<Rightarrow> date \<Rightarrow> message option" where
  "spec_milestone_validation project_start project_end start_date end_date =
     (if start_date < project_start then Some Milestone_start_before_project_start
      else if end_date > project_end then Some Milestone_end_after_project_end
      else if start_date > end_date then Some Milestone_start_after_end
      else None)"

section \<open>Example data\<close>

text \<open>
  A project running from 2024-01-01 (ordinal 738886) to 2024-12-31 (ordinal 739251) with
  one milestone from 2024-01-01 to 2024-06-30 (ordinal 739067), the same project once
  Completed, the project beside a second one named Intranet, and the project with fifty
  milestones of which twenty-nine are Completed.
\<close>


definition ex_project :: project where
  "ex_project = \<lparr>p_id = 1, project_name = ''Website'', client_name = ''Acme Corp'',
     p_start_date = 738886, p_end_date = 739251, p_status = ''In Progress''\<rparr>"

definition ex_milestone :: milestone where
  "ex_milestone = \<lparr>m_id = 1, m_project_id = 1, milestone_name = ''Design'',
     m_start_date = 738886, m_end_date = 739067, m_status = ''In Progress'',
     m_priority = ''High''\<rparr>"

definition ex_db :: db where
  "ex_db = \<lparr>projects = [ex_project], milestones = [ex_milestone]\<rparr>"

definition ex_db_completed :: db where
  "ex_db_completed = \<lparr>projects = [ex_project\<lparr>p_status := ''Completed''\<rparr>],
     milestones = [ex_milestone\<lparr>m_status := ''Completed''\<rparr>]\<rparr>"

definition ex_db_two :: db where
  "ex_db_two = \<lparr>projects = [ex_project, ex_project\<lparr>p_id := 2, project_name := ''Intranet''\<rparr>],
     milestones = [ex_milestone]\<rparr>"

definition ex_milestone_numbered :: "string \<Rightarrow> nat \<Rightarrow> milestone" where
  "ex_milestone_numbered status i = \<lparr>m_id = i, m_project_id = 1, milestone_name = ''Task'',
     m_start_date = 738886, m_end_date = 739067, m_status = status, m_priority = ''Medium''\<rparr>"

definition ex_db_50 :: db where
  "ex_db_50 = \<lparr>projects = [ex_project],
     milestones = map (ex_milestone_numbered ''Completed'') [1..<30]
                  @ map (ex_milestone_numbered ''Not Started'') [30..<51]\<rparr>"

section \<open>Store and loop lemmas\<close>

lemmas ex_defs = ex_project_def ex_milestone_def ex_db_def ex_db_completed_def

lemma calculate_completion_percentage_no_milestones:
  "project_milestones d p = [] \<Longrightarrow> calculate_completion_percentage d p = 0"
  by (simp add: calculate_completion_percentage_def)

lemma find_p_id: "find (\<lambda>q. p_id q = i) ps = Some p \<Longrightarrow> p_id p = i"
  by (induction ps) (auto split: if_splits)

lemma get_project_id: "get_project d i = Some p \<Longrightarrow> p_id p = i"
  unfolding get_project_def by (rule find_p_id)

lemma find_map_keep_id:
  assumes "\<And>q. p_id (f q) = p_id q"
  shows "find (\<lambda>q. p_id q = i) (map f ps) = map_option f (find (\<lambda>q. p_id q = i) ps)"
  using assms by (induction ps) auto

lemma get_project_put_project:
  assumes "get_project d i = Some p" and "p_id q = i"
  shows "get_project (put_project q d) i = Some q"
proof -
  have "find (\<lambda>r. p_id r = i) (map (\<lambda>r. if p_id r = i then q else r) ps) = Some q"
    if "find (\<lambda>r. p_id r = i) ps = Some p" for ps
    using that assms(2) by (induction ps) (auto split: if_splits)
  with assms show ?thesis by (simp add: get_project_def put_project_def)
qed

lemma get_project_put_milestone [simp]: "get_project (put_milestone m d) i = get_project d i"
  by (simp add: get_project_def put_milestone_def)

lemma project_milestones_put_project [simp]:
  "p_id q = p_id p \<Longrightarrow> project_milestones (put_project q d) p = project_milestones d p"
  by (simp add: project_milestones_def put_project_def)

lemma all_completed_list_all:
  "all_completed ms today = list_all (\<lambda>m. get_milestone_status m today = ''Completed'') ms"
  by (induction ms) auto

lemma toggle_status_not_completed:
  assumes "get_project d project_id = Some p" and "p_status p \<noteq> ''Completed''"
  shows "toggle_status project_id today d =
           (Redirect_view_project project_id,
            if all_completed (project_milestones d p) today
            then \<lparr>committed = put_project (p\<lparr>p_status := ''Completed''\<rparr>) d,
                  working = put_project (p\<lparr>p_status := ''Completed''\<rparr>) d\<rparr>
            else \<lparr>committed = d, working = d\<rparr>)"
  using assms get_project_id [OF assms(1)]
  by (simp add: toggle_status_def begin_request_def commit_def set_project_def Let_def)

lemma toggle_status_completed:
  assumes "get_project d project_id = Some p" and "p_status p = ''Completed''"
  shows "stored_after (toggle_status project_id today d) =
           put_project (update_status_by_date today (p\<lparr>p_status := ''Not Completed''\<rparr>)) d"
  using assms
  by (simp add: toggle_status_def begin_request_def commit_def set_project_def Let_def stored_after_def)

lemma update_status_by_date_eq:
  "update_status_by_date today p =
     p\<lparr>p_status := spec_project_status (p_start_date p) (p_end_date p) today\<rparr>"
  by (simp add: update_status_by_date_def spec_project_status_def)

lemma dashboard_milestones_projects:
  "dashboard_milestones today ms (c, n, s) = (c', n', s') \<Longrightarrow>
     projects (working s') = projects (working s) \<and> committed s' = committed s"
proof (induction ms arbitrary: c n s)
  case Nil
  then show ?case by simp
next
  case (Cons m ms)
  from Cons.prems show ?case
    by (auto simp: Let_def set_milestone_def put_milestone_def split: if_splits dest!: Cons.IH)
qed

lemma dashboard_projects_projects:
  "dashboard_projects today ps (a, v, c, n, s) = (a', v', c', n', s') \<Longrightarrow>
     projects (working s) = X \<Longrightarrow> projects (committed s) = X \<Longrightarrow>
     projects (committed s') = X"
proof (induction ps arbitrary: a v c n s)
  case Nil
  then show ?case by simp
next
  case (Cons p ps)
  obtain c1 n1 s1 where dm:
    "dashboard_milestones today (project_milestones (working s) p) (c, n, s) = (c1, n1, s1)"
    by (metis prod_cases3)
  from dashboard_milestones_projects [OF dm] Cons.prems(2)
  have w: "projects (working (commit s1)) = X" "projects (committed (commit s1)) = X"
    by (simp_all add: commit_def)
  from Cons.prems(1) dm obtain a1 v1 where
    "dashboard_projects today ps (a1, v1, c1, n1, commit s1) = (a', v', c', n', s')"
    by (simp add: Let_def)
  from Cons.IH [OF this w] show ?case .
qed

lemma dashboard_projects_stored:
  "projects (stored_after (dashboard today d)) = map (dashboard_update today) (projects d)"
proof -
  let ?s = "commit ((begin_request d)\<lparr>working := (working (begin_request d))
      \<lparr>projects := map (dashboard_update today) (projects (working (begin_request d)))\<rparr>\<rparr>)"
  obtain a v c n s' where dp:
    "dashboard_projects today (projects (working ?s)) (0, 0, 0, 0, ?s) = (a, v, c, n, s')"
    by (metis prod_cases5)
  have "projects (committed s') = map (dashboard_update today) (projects d)"
    by (rule dashboard_projects_projects [OF dp]) (simp_all add: commit_def begin_request_def)
  moreover have "stored_after (dashboard today d) = committed s'"
    using dp by (simp add: dashboard_def stored_after_def Let_def)
  ultimately show ?thesis by simp
qed

lemma dashboard_update_id [simp]: "p_id (dashboard_update today p) = p_id p"
  by (simp add: dashboard_update_def update_status_by_date_def)

lemma get_project_dashboard:
  "get_project (stored_after (dashboard today d)) i =
     map_option (dashboard_update today) (get_project d i)"
  by (simp add: get_project_def dashboard_projects_stored find_map_keep_id)

section \<open>Properties of the milestone status derivation\<close>

text \<open>
  C1. For every milestone and every reference date, the status derived by the code is the
  one the three-rule reference definition gives for the milestone's stored status and
  date range: Completed stays Completed; In Progress becomes Overdue past the end date and
  stays In Progress otherwise; any other stored value is decided by the dates alone.
\<close>

theorem get_milestone_status_refines_spec:
  "get_milestone_status m today =
     spec_milestone_status (m_status m) (m_start_date m) (m_end_date m) today"
  by (simp add: get_milestone_status_def spec_milestone_status_def)

text \<open>
  C4. For a milestone whose date range is well-formed (start not after end), storing the
  derived status back and deriving again at the same reference date gives the same status.
\<close>

theorem get_milestone_status_fixed_point:
  assumes "m_start_date m \<le> m_end_date m"
  shows "get_milestone_status (m\<lparr>m_status := get_milestone_status m today\<rparr>) today
           = get_milestone_status m today"
  using assms by (simp add: get_milestone_status_def)


theorem get_milestone_status_fixed_point_witness:
  "(10::int) \<le> 20 \<and>
   get_milestone_status
     (\<lparr>m_id = 1, m_project_id = 1, milestone_name = ''Design'', m_start_date = 10,
       m_end_date = 20, m_status = ''In Progress'', m_priority = ''High''\<rparr>
      \<lparr>m_status := get_milestone_status
         \<lparr>m_id = 1, m_project_id = 1, milestone_name = ''Design'', m_start_date = 10,
          m_end_date = 20, m_status = ''In Progress'', m_priority = ''High''\<rparr> 25\<rparr>) 25
     = ''Overdue''"
  using get_milestone_status_fixed_point
    [of "\<lparr>m_id = 1, m_project_id = 1, milestone_name = ''Design'', m_start_date = 10,
          m_end_date = 20, m_status = ''In Progress'', m_priority = ''High''\<rparr>" 25]
  by (simp add: get_milestone_status_def)

section \<open>Project status\<close>

text \<open>
  C3. Whenever the status of a project is recomputed automatically, the stored status
  becomes Overdue if today is after the end date, else In Progress if the start date is
  not after today, else Not Started: after the dashboard pass for every project that was
  not Completed, and after a toggle of a project that was Completed.
\<close>

theorem automatic_project_status:
  assumes "get_project d project_id = Some p"
  shows "(p_status p \<noteq> ''Completed'' \<longrightarrow>
            get_project (stored_after (dashboard today d)) project_id =
              Some (p\<lparr>p_status := spec_project_status (p_start_date p) (p_end_date p) today\<rparr>))
       \<and> (p_status p = ''Completed'' \<longrightarrow>
            get_project (stored_after (toggle_status project_id today d)) project_id =
              Some (p\<lparr>p_status := spec_project_status (p_start_date p) (p_end_date p) today\<rparr>))"
proof (intro conjI impI)
  assume "p_status p \<noteq> ''Completed''"
  with assms show "get_project (stored_after (dashboard today d)) project_id =
      Some (p\<lparr>p_status := spec_project_status (p_start_date p) (p_end_date p) today\<rparr>)"
    by (simp add: get_project_dashboard dashboard_update_def update_status_by_date_eq)
next
  assume c: "p_status p = ''Completed''"
  have "p_id (update_status_by_date today (p\<lparr>p_status := ''Not Completed''\<rparr>)) = project_id"
    using get_project_id [OF assms] by (simp add: update_status_by_date_eq)
  from get_project_put_project [OF assms this]
  show "get_project (stored_after (toggle_status project_id today d)) project_id =
      Some (p\<lparr>p_status := spec_project_status (p_start_date p) (p_end_date p) today\<rparr>)"
    by (simp add: toggle_status_completed [OF assms c] update_status_by_date_eq)
qed


theorem automatic_project_status_witness:
  "get_project ex_db 1 = Some ex_project \<and> p_status ex_project \<noteq> ''Completed''
   \<and> get_project (stored_after (dashboard 739300 ex_db)) 1
       = Some (ex_project\<lparr>p_status := ''Overdue''\<rparr>)
   \<and> get_project ex_db_completed 1 = Some (ex_project\<lparr>p_status := ''Completed''\<rparr>)
   \<and> get_project (stored_after (toggle_status 1 739000 ex_db_completed)) 1
       = Some (ex_project\<lparr>p_status := ''In Progress''\<rparr>)"
proof -
  have h: "get_project ex_db 1 = Some ex_project"
    by (simp add: get_project_def ex_defs)
  have n: "p_status ex_project \<noteq> ''Completed''"
    by (simp add: ex_defs)
  have h': "get_project ex_db_completed 1 = Some (ex_project\<lparr>p_status := ''Completed''\<rparr>)"
    by (simp add: get_project_def ex_defs)
  from automatic_project_status [OF h, of 739300] automatic_project_status [OF h', of 739000] h n h'
  show ?thesis by (simp add: spec_project_status_def ex_project_def)
qed

text \<open>
  C2. A toggle of a project that is not Completed answers with the redirect to the project
  page in every case; the stored project becomes Completed exactly when the derived
  status of every one of its milestones is Completed, and otherwise the database is left
  as it was.
\<close>

theorem toggle_into_completed:
  assumes "get_project d project_id = Some p" and "p_status p \<noteq> ''Completed''"
  shows "fst (toggle_status project_id today d) = Redirect_view_project project_id
       \<and> stored_after (toggle_status project_id today d) =
           (if list_all (\<lambda>m. get_milestone_status m today = ''Completed'') (project_milestones d p)
            then put_project (p\<lparr>p_status := ''Completed''\<rparr>) d else d)
       \<and> (\<exists>p'. get_project (stored_after (toggle_status project_id today d)) project_id = Some p'
             \<and> (p_status p' = ''Completed'') =
                 list_all (\<lambda>m. get_milestone_status m today = ''Completed'') (project_milestones d p))"
proof -
  have i: "p_id (p\<lparr>p_status := ''Completed''\<rparr>) = project_id"
    using get_project_id [OF assms(1)] by simp
  show ?thesis
    using assms get_project_put_project [OF assms(1) i]
    by (simp add: toggle_status_not_completed [OF assms] stored_after_def all_completed_list_all)
qed

theorem toggle_into_completed_witness:
  "get_project ex_db 1 = Some ex_project \<and> p_status ex_project \<noteq> ''Completed''
   \<and> fst (toggle_status 1 739099 ex_db) = Redirect_view_project 1
   \<and> stored_after (toggle_status 1 739099 ex_db) = ex_db"
proof -
  have h: "get_project ex_db 1 = Some ex_project"
    by (simp add: get_project_def ex_defs)
  have n: "p_status ex_project \<noteq> ''Completed''"
    by (simp add: ex_defs)
  have m: "\<not> list_all (\<lambda>m. get_milestone_status m 739099 = ''Completed'')
              (project_milestones ex_db ex_project)"
    by (simp add: project_milestones_def get_milestone_status_def ex_defs)
  from toggle_into_completed [OF h n, of 739099] m h n show ?thesis by simp
qed

text \<open>
  C9. A toggle of a project that is not Completed and has no milestone stores Completed:
  the loop over the milestones finds none that is not Completed. The completion
  percentage of such a project is 0.
\<close>

theorem toggle_without_milestones:
  assumes "get_project d project_id = Some p" and "p_status p \<noteq> ''Completed''"
    and "project_milestones d p = []"
  shows "get_project (stored_after (toggle_status project_id today d)) project_id
           = Some (p\<lparr>p_status := ''Completed''\<rparr>)
       \<and> calculate_completion_percentage d p = 0"
proof -
  have i: "p_id (p\<lparr>p_status := ''Completed''\<rparr>) = project_id"
    using get_project_id [OF assms(1)] by simp
  show ?thesis
    using assms(3) get_project_put_project [OF assms(1) i]
    by (simp add: toggle_status_not_completed [OF assms(1,2)] stored_after_def
        calculate_completion_percentage_no_milestones)
qed

theorem toggle_without_milestones_witness:
  "get_project (ex_db\<lparr>milestones := []\<rparr>) 1 = Some ex_project
   \<and> p_status ex_project \<noteq> ''Completed''
   \<and> project_milestones (ex_db\<lparr>milestones := []\<rparr>) ex_project = []
   \<and> get_project (stored_after (toggle_status 1 739099 (ex_db\<lparr>milestones := []\<rparr>))) 1
       = Some (ex_project\<lparr>p_status := ''Completed''\<rparr>)
   \<and> calculate_completion_percentage (ex_db\<lparr>milestones := []\<rparr>) ex_project = 0"
proof -
  have h: "get_project (ex_db\<lparr>milestones := []\<rparr>) 1 = Some ex_project"
    by (simp add: get_project_def ex_defs)
  have n: "p_status ex_project \<noteq> ''Completed''"
    by (simp add: ex_defs)
  have e: "project_milestones (ex_db\<lparr>milestones := []\<rparr>) ex_project = []"
    by (simp add: project_milestones_def)
  from toggle_without_milestones [OF h n e, of 739099] h n e show ?thesis by simp
qed

section \<open>Write-time validation\<close>

text \<open>
  C6. Creating and editing a milestone check the submitted dates in a fixed order and
  report the first check that fails: the start date before the project's start date, then
  the end date after the project's end date, then the start date after the end date; with
  no failing check the request is redirected to the project page. A start date equal to
  the project's start date is not rejected by the first check.
\<close>

theorem milestone_validation_order:
  assumes "get_project d project_id = Some p"
    and "f_startdate form = Some start_date" and "f_enddate form = Some end_date"
  shows "fst (add_milestone project_id POST form d) =
           (case spec_milestone_validation (p_start_date p) (p_end_date p) start_date end_date of
              Some e \<Rightarrow> Render_form (Some e) | None \<Rightarrow> Redirect_view_project project_id)
       \<and> (\<forall>milestone_id m. get_milestone d milestone_id = Some m \<and> m_project_id m = project_id \<longrightarrow>
            fst (edit_milestone milestone_id POST form d) =
              (case spec_milestone_validation (p_start_date p) (p_end_date p) start_date end_date of
                 Some e \<Rightarrow> Render_form (Some e) | None \<Rightarrow> Redirect_view_project project_id))
       \<and> (start_date = p_start_date p \<longrightarrow>
            fst (add_milestone project_id POST form d)
              \<noteq> Render_form (Some Milestone_start_before_project_start))"
proof (intro conjI allI impI)
  show "fst (add_milestone project_id POST form d) =
           (case spec_milestone_validation (p_start_date p) (p_end_date p) start_date end_date of
              Some e \<Rightarrow> Render_form (Some e) | None \<Rightarrow> Redirect_view_project project_id)"
    using assms
    by (simp add: add_milestone_def begin_request_def spec_milestone_validation_def Let_def)
next
  fix milestone_id m
  assume "get_milestone d milestone_id = Some m \<and> m_project_id m = project_id"
  with assms show "fst (edit_milestone milestone_id POST form d) =
      (case spec_milestone_validation (p_start_date p) (p_end_date p) start_date end_date of
         Some e \<Rightarrow> Render_form (Some e) | None \<Rightarrow> Redirect_view_project project_id)"
    by (simp add: edit_milestone_def begin_request_def spec_milestone_validation_def Let_def)
next
  assume "start_date = p_start_date p"
  with assms show "fst (add_milestone project_id POST form d)
              \<noteq> Render_form (Some Milestone_start_before_project_start)"
    by (simp add: add_milestone_def begin_request_def Let_def)
qed

theorem milestone_validation_order_witness:
  "get_project ex_db 1 = Some ex_project
   \<and> get_milestone ex_db 1 = Some ex_milestone \<and> m_project_id ex_milestone = 1
   \<and> fst (add_milestone 1 POST
        \<lparr>f_milestonename = ''build'', f_startdate = Some 738885, f_enddate = Some 739300,
         f_status = ''Not Started'', f_priority = None\<rparr> ex_db)
       = Render_form (Some Milestone_start_before_project_start)
   \<and> fst (edit_milestone 1 POST
        \<lparr>f_milestonename = ''build'', f_startdate = Some 738885, f_enddate = Some 739300,
         f_status = ''Not Started'', f_priority = None\<rparr> ex_db)
       = Render_form (Some Milestone_start_before_project_start)
   \<and> fst (add_milestone 1 POST
        \<lparr>f_milestonename = ''build'', f_startdate = Some 738886, f_enddate = Some 739067,
         f_status = ''Not Started'', f_priority = None\<rparr> ex_db)
       = Redirect_view_project 1"
proof -
  let ?f = "\<lparr>f_milestonename = ''build'', f_startdate = Some 738885, f_enddate = Some 739300,
         f_status = ''Not Started'', f_priority = None\<rparr>"
  let ?g = "\<lparr>f_milestonename = ''build'', f_startdate = Some 738886, f_enddate = Some 739067,
         f_status = ''Not Started'', f_priority = None\<rparr>"
  have h: "get_project ex_db 1 = Some ex_project"
    by (simp add: get_project_def ex_defs)
  have k: "get_milestone ex_db 1 = Some ex_milestone" "m_project_id ex_milestone = 1"
    by (simp_all add: get_milestone_def ex_defs)
  have f: "f_startdate ?f = Some 738885" "f_enddate ?f = Some 739300" by simp_all
  have g: "f_startdate ?g = Some 738886" "f_enddate ?g = Some 739067" by simp_all
  from milestone_validation_order [OF h f] milestone_validation_order [OF h g] h k
  show ?thesis by (simp add: spec_milestone_validation_def ex_project_def)
qed

section \<open>Failed validation\<close>

text \<open>
  Each creating or editing route either answers with a redirect or leaves the committed
  database as it found it.
\<close>

lemma edit_milestone_outcome:
  "(\<exists>i. fst (edit_milestone milestone_id request_method mform d) = Redirect_view_project i)
   \<or> stored_after (edit_milestone milestone_id request_method mform d) = d"
proof (cases "get_milestone d milestone_id")
  case None
  then show ?thesis
    by (simp add: edit_milestone_def begin_request_def stored_after_def)
next
  case (Some m)
  show ?thesis
  proof (cases "get_project d (m_project_id m)")
    case None
    with Some show ?thesis
      by (simp add: edit_milestone_def begin_request_def stored_after_def)
  next
    case p: (Some p)
    show ?thesis
    proof (cases "f_startdate mform")
      case None
      with Some p show ?thesis
        by (simp add: edit_milestone_def begin_request_def stored_after_def set_milestone_def Let_def)
    next
      case sd: (Some start_date)
      show ?thesis
      proof (cases "f_enddate mform")
        case None
        with Some p sd show ?thesis
          by (simp add: edit_milestone_def begin_request_def stored_after_def set_milestone_def Let_def)
      next
        case ed: (Some end_date)
        with Some p sd show ?thesis
          by (simp add: edit_milestone_def begin_request_def stored_after_def set_milestone_def
              set_project_def commit_def Let_def)
      qed
    qed
  qed
qed


lemma edit_project_outcome:
  "(\<exists>i. fst (edit_project project_id request_method pform d) = Redirect_view_project i)
   \<or> stored_after (edit_project project_id request_method pform d) = d"
  by (simp add: edit_project_def begin_request_def commit_def set_project_def
      stored_after_def Let_def split: option.split)

lemma add_milestone_outcome:
  "(\<exists>i. fst (add_milestone project_id request_method mform d) = Redirect_view_project i)
   \<or> stored_after (add_milestone project_id request_method mform d) = d"
  by (simp add: add_milestone_def begin_request_def commit_def stored_after_def Let_def
      split: option.split)

lemma add_project_outcome:
  "fst (add_project request_method pform d) = Redirect_dashboard
   \<or> stored_after (add_project request_method pform d) = d"
  by (simp add: add_project_def begin_request_def commit_def stored_after_def Let_def
      split: option.split)

text \<open>
  A name that is already taken ends the request in the server error of \<open>flash\<close>.
\<close>

lemma add_project_name_taken:
  assumes "f_start_date pform = Some start_date" and "f_end_date pform = Some end_date"
    and "find (\<lambda>p. project_name p = to_title_case (f_project_name pform)) (projects d) = Some q"
  shows "add_project POST pform d = (Abort_500, begin_request d)"
  using assms by (simp add: add_project_def begin_request_def Let_def)

lemma edit_project_name_taken:
  assumes "get_project d project_id = Some p"
    and "to_title_case (f_project_name pform) \<noteq> project_name p"
    and "find (\<lambda>p. project_name p = to_title_case (f_project_name pform)) (projects d) = Some q"
  shows "edit_project project_id POST pform d = (Abort_500, begin_request d)"
  using assms by (simp add: edit_project_def begin_request_def Let_def)

text \<open>
  C8. When creating or editing a milestone or a project does not end in its redirect, and
  so whenever it fails a validation (date nesting, date order or a name already taken),
  nothing is written: the database after the request, and with it every stored field of
  the targeted record, is the database before it. The name and priority that
  \<open>edit_milestone\<close> and the names that \<open>edit_project\<close> assign before validating stay in the
  discarded working copy.
\<close>

theorem failed_validation_writes_nothing:
  "((\<forall>i. fst (edit_milestone milestone_id request_method mform d) \<noteq> Redirect_view_project i) \<longrightarrow>
      stored_after (edit_milestone milestone_id request_method mform d) = d)
 \<and> ((\<forall>i. fst (edit_project project_id request_method pform d) \<noteq> Redirect_view_project i) \<longrightarrow>
      stored_after (edit_project project_id request_method pform d) = d)
 \<and> ((\<forall>i. fst (add_milestone project_id request_method mform d) \<noteq> Redirect_view_project i) \<longrightarrow>
      stored_after (add_milestone project_id request_method mform d) = d)
 \<and> (fst (add_project request_method pform d) \<noteq> Redirect_dashboard \<longrightarrow>
      stored_after (add_project request_method pform d) = d)"
proof (intro conjI impI)
  assume "\<forall>i. fst (edit_milestone milestone_id request_method mform d) \<noteq> Redirect_view_project i"
  with edit_milestone_outcome [of milestone_id request_method mform d]
  show "stored_after (edit_milestone milestone_id request_method mform d) = d" by blast
next
  assume "\<forall>i. fst (edit_project project_id request_method pform d) \<noteq> Redirect_view_project i"
  with edit_project_outcome [of project_id request_method pform d]
  show "stored_after (edit_project project_id request_method pform d) = d" by blast
next
  assume "\<forall>i. fst (add_milestone project_id request_method mform d) \<noteq> Redirect_view_project i"
  with add_milestone_outcome [of project_id request_method mform d]
  show "stored_after (add_milestone project_id request_method mform d) = d" by blast
next
  assume "fst (add_project request_method pform d) \<noteq> Redirect_dashboard"
  with add_project_outcome [of request_method pform d]
  show "stored_after (add_project request_method pform d) = d" by blast
qed

theorem failed_validation_writes_nothing_witness:
  "fst (edit_milestone 1 POST
        \<lparr>f_milestonename = ''build'', f_startdate = Some 738885, f_enddate = Some 739067,
         f_status = ''Completed'', f_priority = Some ''Low''\<rparr> ex_db)
      = Render_form (Some Milestone_start_before_project_start)
   \<and> stored_after (edit_milestone 1 POST
        \<lparr>f_milestonename = ''build'', f_startdate = Some 738885, f_enddate = Some 739067,
         f_status = ''Completed'', f_priority = Some ''Low''\<rparr> ex_db) = ex_db
   \<and> fst (edit_project 1 POST
        \<lparr>f_project_name = ''website'', f_client_name = ''globex'',
         f_start_date = Some 739251, f_end_date = Some 738886\<rparr> ex_db)
      = Render_form (Some Start_after_end)
   \<and> stored_after (edit_project 1 POST
        \<lparr>f_project_name = ''website'', f_client_name = ''globex'',
         f_start_date = Some 739251, f_end_date = Some 738886\<rparr> ex_db) = ex_db
   \<and> fst (add_milestone 1 POST
        \<lparr>f_milestonename = ''build'', f_startdate = Some 738885, f_enddate = Some 739067,
         f_status = ''Completed'', f_priority = Some ''Low''\<rparr> ex_db)
      = Render_form (Some Milestone_start_before_project_start)
   \<and> stored_after (add_milestone 1 POST
        \<lparr>f_milestonename = ''build'', f_startdate = Some 738885, f_enddate = Some 739067,
         f_status = ''Completed'', f_priority = Some ''Low''\<rparr> ex_db) = ex_db
   \<and> fst (add_project POST
        \<lparr>f_project_name = ''website'', f_client_name = ''globex'',
         f_start_date = Some 739251, f_end_date = Some 738886\<rparr> ex_db) = Abort_500
   \<and> stored_after (add_project POST
        \<lparr>f_project_name = ''website'', f_client_name = ''globex'',
         f_start_date = Some 739251, f_end_date = Some 738886\<rparr> ex_db) = ex_db
   \<and> fst (edit_project 1 POST
        \<lparr>f_project_name = ''intranet'', f_client_name = ''globex'',
         f_start_date = Some 738886, f_end_date = Some 739251\<rparr> ex_db_two) = Abort_500
   \<and> stored_after (edit_project 1 POST
        \<lparr>f_project_name = ''intranet'', f_client_name = ''globex'',
         f_start_date = Some 738886, f_end_date = Some 739251\<rparr> ex_db_two) = ex_db_two"
proof -
  let ?mf = "\<lparr>f_milestonename = ''build'', f_startdate = Some 738885, f_enddate = Some 739067,
         f_status = ''Completed'', f_priority = Some ''Low''\<rparr>"
  let ?pf = "\<lparr>f_project_name = ''website'', f_client_name = ''globex'',
         f_start_date = Some 739251, f_end_date = Some 738886\<rparr>"
  let ?pg = "\<lparr>f_project_name = ''intranet'', f_client_name = ''globex'',
         f_start_date = Some 738886, f_end_date = Some 739251\<rparr>"
  have a: "fst (edit_milestone 1 POST ?mf ex_db)
            = Render_form (Some Milestone_start_before_project_start)"
    by code_simp
  have b: "fst (edit_project 1 POST ?pf ex_db) = Render_form (Some Start_after_end)"
    by code_simp
  have c: "fst (add_milestone 1 POST ?mf ex_db)
            = Render_form (Some Milestone_start_before_project_start)"
    by code_simp
  have e: "fst (add_project POST ?pf ex_db) = Abort_500"
    by code_simp
  have f: "fst (edit_project 1 POST ?pg ex_db_two) = Abort_500"
    by code_simp
  from failed_validation_writes_nothing [of 1 POST ?mf ex_db 1 ?pf]
       failed_validation_writes_nothing [of 1 POST ?mf ex_db_two 1 ?pg]
       a b c e f
  show ?thesis by simp
qed

text \<open>
  The assignments made before the validation are visible in the working copy that the
  form is rendered from, and only there.
\<close>

lemma edit_milestone_failed_validation_working_copy:
  "milestones (working (snd (edit_milestone 1 POST
        \<lparr>f_milestonename = ''build'', f_startdate = Some 738885, f_enddate = Some 739067,
         f_status = ''Completed'', f_priority = Some ''Low''\<rparr> ex_db)))
      = [ex_milestone\<lparr>milestone_name := ''Build'', m_priority := ''Low''\<rparr>]"
  by code_simp

section \<open>Editing a milestone away from Completed\<close>

text \<open>
  C10. An accepted edit of a milestone whose stored status was Completed to another
  status stores \<open>Not Completed\<close> as the status of the parent project, whatever the
  parent's status was before.
\<close>

theorem edit_milestone_resets_project:
  assumes "get_milestone d milestone_id = Some m"
    and "get_project d (m_project_id m) = Some p"
    and "m_status m = ''Completed''" and "f_status form \<noteq> ''Completed''"
    and "f_startdate form = Some start_date" and "f_enddate form = Some end_date"
    and "p_start_date p \<le> start_date" and "end_date \<le> p_end_date p"
    and "start_date \<le> end_date"
  shows "fst (edit_milestone milestone_id POST form d) = Redirect_view_project (m_project_id m)
       \<and> get_project (stored_after (edit_milestone milestone_id POST form d)) (m_project_id m)
           = Some (p\<lparr>p_status := ''Not Completed''\<rparr>)"
proof -
  let ?q = "p\<lparr>p_status := ''Not Completed''\<rparr>"
  have i: "p_id ?q = m_project_id m"
    using get_project_id [OF assms(2)] by simp
  have g: "get_project (put_project ?q d') (m_project_id m) = Some ?q"
    if "get_project d' (m_project_id m) = Some p" for d'
    by (rule get_project_put_project [OF that i])
  show ?thesis
    using assms
    apply (simp add: edit_milestone_def begin_request_def commit_def set_milestone_def
        set_project_def stored_after_def Let_def)
    apply (rule g)
    apply simp
    done
qed

theorem edit_milestone_resets_project_witness:
  "get_milestone ex_db_completed 1 = Some (ex_milestone\<lparr>m_status := ''Completed''\<rparr>)
   \<and> get_project (ex_db\<lparr>milestones := milestones ex_db_completed\<rparr>) 1 = Some ex_project
   \<and> p_status ex_project = ''In Progress''
   \<and> get_project
        (stored_after (edit_milestone 1 POST
           \<lparr>f_milestonename = ''design'', f_startdate = Some 738886, f_enddate = Some 739067,
            f_status = ''In Progress'', f_priority = None\<rparr>
           (ex_db\<lparr>milestones := milestones ex_db_completed\<rparr>))) 1
       = Some (ex_project\<lparr>p_status := ''Not Completed''\<rparr>)"
proof -
  let ?d = "ex_db\<lparr>milestones := milestones ex_db_completed\<rparr>"
  let ?m = "ex_milestone\<lparr>m_status := ''Completed''\<rparr>"
  let ?f = "\<lparr>f_milestonename = ''design'', f_startdate = Some 738886, f_enddate = Some 739067,
            f_status = ''In Progress'', f_priority = None\<rparr>"
  have a: "get_milestone ?d 1 = Some ?m"
    by (simp add: get_milestone_def ex_defs)
  have i: "m_project_id ?m = 1" by (simp add: ex_defs)
  have b: "get_project ?d (m_project_id ?m) = Some ex_project"
    by (simp add: get_project_def ex_defs)
  have c: "m_status ?m = ''Completed''" by simp
  have e: "f_status ?f \<noteq> ''Completed''" by simp
  have f: "p_start_date ex_project \<le> 738886" "739067 \<le> p_end_date ex_project"
    by (simp_all add: ex_defs)
  have g: "f_startdate ?f = Some 738886" "f_enddate ?f = Some 739067" "(738886::int) \<le> 739067"
    by simp_all
  have k: "get_milestone ex_db_completed 1 = Some ?m"
    by (simp add: get_milestone_def ex_defs)
  have s: "p_status ex_project = ''In Progress''" by (simp add: ex_defs)
  from edit_milestone_resets_project [OF a b c e g(1,2) f g(3)] b k s
  show ?thesis by (simp only: i)
qed

section \<open>Completion percentage\<close>

text \<open>
  The two percentages at twenty-nine Completed milestones out of fifty: the binary64
  quotient \<open>29 / 50\<close> times \<open>100\<close> is \<open>57.99999999999999\<close>.
\<close>

lemma percentage_29_of_50:
  "int_of_float (float_mul_nat (true_div 29 50) 100) = 57"
  by (simp add: int_of_float_def float_mul_nat_def true_div_def
      float_of_ratio_def round_half_even_def bit_length.simps)

lemma rounded_percentage_29_of_50: "view_completion_percentage 29 50 = 58"
  by (simp add: view_completion_percentage_def round_of_float_def float_mul_nat_def true_div_def
      float_of_ratio_def round_half_even_def bit_length.simps)

text \<open>
  A milestone counts as Completed for \<open>view_project\<close> exactly when its stored status is
  Completed, so both percentages count the same milestones. Both are 100 when every
  milestone is Completed: \<open>n / n\<close> is \<open>1.0\<close> and \<open>1.0 * 100\<close> is \<open>100.0\<close>.
\<close>

lemma get_milestone_status_completed_iff:
  "(get_milestone_status m today = ''Completed'') = (m_status m = ''Completed'')"
  by (simp add: get_milestone_status_def)

lemma true_div_self: "0 < n \<Longrightarrow> true_div n n = (4503599627370496, - 52)"
  by (simp add: true_div_def float_of_ratio_def round_half_even_def)

lemma percentage_of_one: "int_of_float (float_mul_nat (4503599627370496, - 52) 100) = 100"
  by (simp add: int_of_float_def float_mul_nat_def float_of_ratio_def round_half_even_def
      bit_length.simps)

lemma rounded_percentage_of_one: "round_of_float (float_mul_nat (4503599627370496, - 52) 100) = 100"
  by (simp add: round_of_float_def float_mul_nat_def float_of_ratio_def round_half_even_def
      bit_length.simps)

lemma calculate_completion_percentage_all_completed:
  assumes "project_milestones d p \<noteq> []"
    and "list_all (\<lambda>m. m_status m = ''Completed'') (project_milestones d p)"
  shows "calculate_completion_percentage d p = 100"
proof -
  let ?ms = "project_milestones d p"
  have "filter (\<lambda>m. m_status m = ''Completed'') ?ms = ?ms"
    using assms(2) by (simp add: list_all_iff)
  moreover have "0 < length ?ms" using assms(1) by simp
  ultimately show ?thesis
    using assms(1)
    by (simp add: calculate_completion_percentage_def Let_def true_div_self percentage_of_one
        del: length_greater_0_conv)
qed

lemma view_completion_percentage_all_completed:
  "0 < n \<Longrightarrow> view_completion_percentage n n = 100"
  by (simp add: view_completion_percentage_def true_div_self rounded_percentage_of_one)

text \<open>
  C5. The completion percentage of \<open>calculate_completion_percentage\<close> is not always
  \<open>100 * completed_count / total_count\<close> taken to an integer: for the project with fifty
  milestones of which twenty-nine are Completed it is 57, while \<open>100 * 29 / 50\<close> is
  exactly 58 and the rounded percentage of \<open>view_project\<close> is 58.
\<close>

theorem completion_percentage_29_of_50:
  "length (project_milestones ex_db_50 ex_project) = 50
   \<and> length (filter (\<lambda>m. m_status m = ''Completed'') (project_milestones ex_db_50 ex_project)) = 29
   \<and> calculate_completion_percentage ex_db_50 ex_project = 57
   \<and> (100 * 29) div 50 = (58::nat)
   \<and> view_completion_percentage 29 50 = 58"
proof -
  have pm: "project_milestones ex_db_50 ex_project = milestones ex_db_50"
    by (simp add: project_milestones_def ex_db_50_def ex_project_def ex_milestone_numbered_def
        filter_map o_def)
  have ms_len: "length (milestones ex_db_50) = 50"
    by (simp add: ex_db_50_def)
  have ms_cnt: "length (filter (\<lambda>m. m_status m = ''Completed'') (milestones ex_db_50)) = 29"
    by (simp add: ex_db_50_def ex_milestone_numbered_def filter_map o_def)
  have len: "length (project_milestones ex_db_50 ex_project) = 50"
    by (simp only: pm ms_len)
  have cnt: "length (filter (\<lambda>m. m_status m = ''Completed'')
               (project_milestones ex_db_50 ex_project)) = 29"
    by (simp only: pm ms_cnt)
  have ne: "project_milestones ex_db_50 ex_project \<noteq> []"
    using len by auto
  have "calculate_completion_percentage ex_db_50 ex_project = 57"
    by (simp add: calculate_completion_percentage_def Let_def len cnt ne percentage_29_of_50)
  with len cnt rounded_percentage_29_of_50 show ?thesis by simp
qed

section \<open>Date order of a project\<close>

text \<open>
  \<open>add_project\<close> stores whatever dates parse, in either order, when the name is free.
\<close>

lemma add_project_ignores_date_order:
  assumes "f_start_date form = Some start_date" and "f_end_date form = Some end_date"
    and "find (\<lambda>p. project_name p = to_title_case (f_project_name form)) (projects d) = None"
  shows "fst (add_project POST form d) = Redirect_dashboard
       \<and> projects (stored_after (add_project POST form d)) =
           projects d @ [\<lparr>p_id = fresh_id (map p_id (projects d)),
              project_name = to_title_case (f_project_name form),
              client_name = to_title_case (f_client_name form),
              p_start_date = start_date, p_end_date = end_date,
              p_status = ''Not Completed''\<rparr>]"
  using assms
  by (simp add: add_project_def begin_request_def commit_def stored_after_def Let_def)

text \<open>
  C7. \<open>add_project\<close> does not compare the two dates: a submission whose start date
  (2024-12-31) is after its end date (2024-01-01) is stored and answered with the redirect
  to the dashboard. \<open>edit_project\<close> rejects the same two dates with its start-after-end
  message.
\<close>

theorem add_project_accepts_inverted_range:
  "add_project POST
     \<lparr>f_project_name = ''apollo'', f_client_name = ''acme'',
      f_start_date = Some 739251, f_end_date = Some 738886\<rparr>
     \<lparr>projects = [], milestones = []\<rparr>
   = (Redirect_dashboard,
      \<lparr>committed = \<lparr>projects = [\<lparr>p_id = 1, project_name = ''Apollo'', client_name = ''Acme'',
          p_start_date = 739251, p_end_date = 738886, p_status = ''Not Completed''\<rparr>], milestones = []\<rparr>,
       working = \<lparr>projects = [\<lparr>p_id = 1, project_name = ''Apollo'', client_name = ''Acme'',
          p_start_date = 739251, p_end_date = 738886, p_status = ''Not Completed''\<rparr>], milestones = []\<rparr>\<rparr>)
   \<and> fst (edit_project 1 POST
        \<lparr>f_project_name = ''website'', f_client_name = ''globex'',
         f_start_date = Some 739251, f_end_date = Some 738886\<rparr> ex_db)
      = Render_form (Some Start_after_end)"
proof -
  have a: "to_title_case ''apollo'' = ''Apollo''" by code_simp
  have b: "to_title_case ''acme'' = ''Acme''" by code_simp
  have c: "fst (edit_project 1 POST
        \<lparr>f_project_name = ''website'', f_client_name = ''globex'',
         f_start_date = Some 739251, f_end_date = Some 738886\<rparr> ex_db)
      = Render_form (Some Start_after_end)" by code_simp
  have d: "add_project POST
     \<lparr>f_project_name = ''apollo'', f_client_name = ''acme'',
      f_start_date = Some 739251, f_end_date = Some 738886\<rparr>
     \<lparr>projects = [], milestones = []\<rparr>
   = (Redirect_dashboard,
      \<lparr>committed = \<lparr>projects = [\<lparr>p_id = 1, project_name = ''Apollo'', client_name = ''Acme'',
          p_start_date = 739251, p_end_date = 738886, p_status = ''Not Completed''\<rparr>], milestones = []\<rparr>,
       working = \<lparr>projects = [\<lparr>p_id = 1, project_name = ''Apollo'', client_name = ''Acme'',
          p_start_date = 739251, p_end_date = 738886, p_status = ''Not Completed''\<rparr>], milestones = []\<rparr>\<rparr>)"
    by (simp add: add_project_def begin_request_def commit_def fresh_id_def Let_def a b)
  show ?thesis by (rule conjI [OF d c])
qed

end
